theory Spec2Isabelle
  imports Main "HOL-Library.AList"
begin

section \<open>The site configuration of the documentation site (docs/src/config.ts)\<close>

text \<open>
  The module declares a type \<open>Config\<close> and exports one constant,
  \<open>config = Object.freeze<Config>({ ... })\<close>. The development below embeds the
  fragment of TypeScript the module and its mutation sites are written in: string and
  object literals, identifiers, property access, \<open>Object.freeze\<close>, constant
  declarations and property assignment. It has two halves, as the language has: the
  static types (erased before the program runs) and the run-time store of objects with
  property attributes.
\<close>

subsection \<open>Static types\<close>

text \<open>
  A type is \<open>string\<close>, a string literal type such as \<open>''\<close>, or an object type
  listing its properties, each with its \<open>readonly\<close> modifier.
\<close>

datatype ty =
    TString
  | TLit string
  | TObj "(string \<times> bool \<times> ty) list"

text \<open>Lines 1 to 13 of config.ts: the declared type, no property \<open>readonly\<close>.\<close>

definition Config :: ty where
  "Config = TObj
     [(''seo'', False, TObj
         [(''title'', False, TLit ''''),
          (''description'', False, TLit '''')]),
      (''github'', False, TString),
      (''discord'', False, TString),
      (''algolia'', False, TObj
         [(''apiKey'', False, TString),
          (''appId'', False, TString),
          (''indexName'', False, TString)])]"

text \<open>
  \<open>Readonly<T>\<close> of the standard library, \<open>{ readonly [P in keyof T]: T[P] }\<close>:
  every property of \<open>T\<close> itself becomes \<open>readonly\<close>; the property types are kept as
  they are. On \<open>string\<close> and literal types the mapped type is the type itself.
\<close>

fun Readonly :: "ty \<Rightarrow> ty" where
  "Readonly (TObj ps) = TObj (map (\<lambda>(n, ro, t). (n, True, t)) ps)"
| "Readonly t = t"

text \<open>
  Assignability of a source type to a target type. A literal type is assignable to
  itself and to \<open>string\<close>; an object type is assignable to an object type when it has
  every property of the target at an assignable type. The \<open>readonly\<close> modifier plays
  no part in assignability.
\<close>

fun assignable :: "ty \<Rightarrow> ty \<Rightarrow> bool"
  and assignable_props :: "(string \<times> bool \<times> ty) list \<Rightarrow> (string \<times> bool \<times> ty) list \<Rightarrow> bool"
where
  "assignable s TString = (case s of TObj _ \<Rightarrow> False | _ \<Rightarrow> True)"
| "assignable s (TLit b) = (s = TLit b)"
| "assignable s (TObj qs) = (case s of TObj ps \<Rightarrow> assignable_props ps qs | _ \<Rightarrow> False)"
| "assignable_props ps [] = True"
| "assignable_props ps ((n, ro, t) # qs) =
     ((case map_of ps n of None \<Rightarrow> False | Some (_, s) \<Rightarrow> assignable s t)
      \<and> assignable_props ps qs)"

subsection \<open>Expressions and statements\<close>

datatype expr =
    StrLit string
  | ObjLit "(string \<times> expr) list"
  | ObjectFreeze ty expr
  | Ident string
  | Member expr string

text \<open>
  \<open>ExportConst x e\<close> is \<open>export const x = e\<close>; \<open>Assign e p r\<close> is the assignment
  \<open>e.p = r\<close>.
\<close>

datatype stmt =
    ExportConst string expr
  | Assign expr string expr

text \<open>Lines 15 to 27 of config.ts: the initialiser of the exported constant.\<close>

definition config :: expr where
  "config = ObjectFreeze Config (ObjLit
     [(''seo'', ObjLit
         [(''title'', StrLit ''''),
          (''description'', StrLit '''')]),
      (''github'', StrLit ''https://github.com/dj-nitehawk/FastEndpoints''),
      (''discord'', StrLit ''https://discord.com/invite/yQZ4uvfF2E''),
      (''algolia'', ObjLit
         [(''apiKey'', StrLit ''''),
          (''appId'', StrLit ''''),
          (''indexName'', StrLit '''')])])"

definition config_module :: stmt where
  "config_module = ExportConst ''config'' config"

subsection \<open>Type checking\<close>

type_synonym tenv = "(string \<times> ty) list"

text \<open>
  The type of an expression, \<open>None\<close> when it does not type-check. The explicit type
  argument of \<open>Object.freeze<T>(o)\<close> selects the signature
  \<open>freeze<T>(o: T): Readonly<T>\<close>. A string literal has its literal type, as it does
  where the context asks for one; the check for excess properties of an object literal
  is left out, and so are the inherited properties of strings and objects.
\<close>

fun type_of :: "tenv \<Rightarrow> expr \<Rightarrow> ty option"
  and type_of_props :: "tenv \<Rightarrow> (string \<times> expr) list \<Rightarrow> (string \<times> bool \<times> ty) list option"
where
  "type_of G (StrLit s) = Some (TLit s)"
| "type_of G (ObjLit fs) = map_option TObj (type_of_props G fs)"
| "type_of G (ObjectFreeze T e) =
     (case type_of G e of
        None \<Rightarrow> None
      | Some s \<Rightarrow> if assignable s T then Some (Readonly T) else None)"
| "type_of G (Ident x) = map_of G x"
| "type_of G (Member e p) =
     (case type_of G e of
        Some (TObj ps) \<Rightarrow> map_option snd (map_of ps p)
      | _ \<Rightarrow> None)"
| "type_of_props G [] = Some []"
| "type_of_props G ((n, e) # fs) =
     (case type_of G e of
        None \<Rightarrow> None
      | Some t \<Rightarrow> map_option (\<lambda>ps. (n, False, t) # ps) (type_of_props G fs))"

text \<open>
  A statement type-checks when its expressions do and, for an assignment, the target
  property exists, is not \<open>readonly\<close>, and the right-hand side is assignable to it.
  The result is the type environment after the statement.
\<close>

fun check_stmt :: "tenv \<Rightarrow> stmt \<Rightarrow> tenv option" where
  "check_stmt G (ExportConst x e) = map_option (\<lambda>t. (x, t) # G) (type_of G e)"
| "check_stmt G (Assign e p r) =
     (case type_of G e of
        Some (TObj ps) \<Rightarrow>
          (case map_of ps p of
             None \<Rightarrow> None
           | Some (ro, t) \<Rightarrow>
               (case type_of G r of
                  None \<Rightarrow> None
                | Some s \<Rightarrow> if \<not> ro \<and> assignable s t then Some G else None))
      | _ \<Rightarrow> None)"

subsection \<open>Run-time values and the store\<close>

type_synonym addr = nat

datatype val = Undefined | Null | Str string | Ref addr

text \<open>A data property with the two attributes that \<open>Object.freeze\<close> clears.\<close>

record property =
  pvalue :: val
  writable :: bool
  configurable :: bool

record obj =
  props :: "(string \<times> property) list"
  extensible :: bool

type_synonym heap = "obj list"

type_synonym env = "(string \<times> val) list"

text \<open>
  \<open>TypeError\<close> and \<open>ReferenceError\<close> are the exceptions of the language.
  \<open>Unmodelled\<close> marks what the embedding leaves out: an address outside the
  store, and the inherited properties of a string.
\<close>

datatype error = TypeError | ReferenceError | Unmodelled

definition lookup_obj :: "heap \<Rightarrow> addr \<Rightarrow> obj option" where
  "lookup_obj h a = (if a < length h then Some (h ! a) else None)"

definition data_prop :: "val \<Rightarrow> property" where
  "data_prop v = \<lparr>pvalue = v, writable = True, configurable = True\<rparr>"

definition empty_obj :: obj where
  "empty_obj = \<lparr>props = [], extensible = True\<rparr>"

text \<open>Defining a property of an object literal: the last definition of a name wins.\<close>

definition define_prop :: "addr \<Rightarrow> string \<Rightarrow> val \<Rightarrow> heap \<Rightarrow> heap" where
  "define_prop a n v h =
     (case lookup_obj h a of
        None \<Rightarrow> h
      | Some ob \<Rightarrow> h[a := ob\<lparr>props := AList.update n (data_prop v) (props ob)\<rparr>])"

text \<open>
  \<open>Object.freeze(o)\<close>: the object \<open>o\<close> itself becomes non-extensible and each of its
  own properties non-writable and non-configurable. Objects its properties refer to are
  left as they are. A value that is not an object is returned unchanged.
\<close>

definition freeze_obj :: "obj \<Rightarrow> obj" where
  "freeze_obj ob =
     \<lparr>props = map (\<lambda>(n, p). (n, p\<lparr>writable := False, configurable := False\<rparr>)) (props ob),
      extensible = False\<rparr>"

fun freeze :: "val \<Rightarrow> heap \<Rightarrow> heap" where
  "freeze (Ref a) h =
     (case lookup_obj h a of None \<Rightarrow> h | Some ob \<Rightarrow> h[a := freeze_obj ob])"
| "freeze v h = h"

text \<open>\<open>Object.isFrozen(o)\<close>.\<close>

fun isFrozen :: "heap \<Rightarrow> val \<Rightarrow> bool" where
  "isFrozen h (Ref a) =
     (case lookup_obj h a of
        None \<Rightarrow> False
      | Some ob \<Rightarrow>
          \<not> extensible ob \<and> list_all (\<lambda>(n, p). \<not> writable p \<and> \<not> configurable p) (props ob))"
| "isFrozen h v = True"

text \<open>
  Reading \<open>v.p\<close>: a missing own property reads as \<open>undefined\<close>, and reading a
  property of \<open>undefined\<close> or \<open>null\<close> is a \<open>TypeError\<close>. Inherited properties are
  not modelled.
\<close>

fun get_member :: "heap \<Rightarrow> val \<Rightarrow> string \<Rightarrow> error + val" where
  "get_member h (Ref a) p =
     (case lookup_obj h a of
        None \<Rightarrow> Inl Unmodelled
      | Some ob \<Rightarrow>
          (case map_of (props ob) p of None \<Rightarrow> Inr Undefined | Some pr \<Rightarrow> Inr (pvalue pr)))"
| "get_member h (Str s) p = Inl Unmodelled"
| "get_member h v p = Inl TypeError"

text \<open>
  Writing \<open>base.p = v\<close>. A write that the object does not accept (the property is not
  writable, or it is new and the object is not extensible, or the base is a string) is a
  \<open>TypeError\<close> in strict mode code and is dropped without notice in sloppy mode code.
  The code of an ES module is always strict mode code.
\<close>

definition reject :: "bool \<Rightarrow> val \<Rightarrow> heap \<Rightarrow> (error + val) \<times> heap" where
  "reject strict v h = (if strict then Inl TypeError else Inr v, h)"

fun put_member :: "bool \<Rightarrow> heap \<Rightarrow> val \<Rightarrow> string \<Rightarrow> val \<Rightarrow> (error + val) \<times> heap" where
  "put_member strict h (Ref a) p v =
     (case lookup_obj h a of
        None \<Rightarrow> (Inl Unmodelled, h)
      | Some ob \<Rightarrow>
          (case map_of (props ob) p of
             Some pr \<Rightarrow>
               if writable pr
               then (Inr v, h[a := ob\<lparr>props := AList.update p (pr\<lparr>pvalue := v\<rparr>) (props ob)\<rparr>])
               else reject strict v h
           | None \<Rightarrow>
               if extensible ob
               then (Inr v, h[a := ob\<lparr>props := AList.update p (data_prop v) (props ob)\<rparr>])
               else reject strict v h))"
| "put_member strict h (Str s) p v = reject strict v h"
| "put_member strict h base p v = (Inl TypeError, h)"

subsection \<open>Evaluation\<close>

text \<open>
  An expression is evaluated in a store and returns a value or an exception, and the
  store it leaves: an exception does not undo what was done before it. An object
  literal allocates its object first and then defines the properties in source order.
\<close>

fun eval :: "env \<Rightarrow> expr \<Rightarrow> heap \<Rightarrow> (error + val) \<times> heap"
  and eval_props :: "env \<Rightarrow> addr \<Rightarrow> (string \<times> expr) list \<Rightarrow> heap \<Rightarrow> (error + unit) \<times> heap"
where
  "eval E (StrLit s) h = (Inr (Str s), h)"
| "eval E (ObjLit fs) h =
     (case eval_props E (length h) fs (h @ [empty_obj]) of
        (Inl err, h') \<Rightarrow> (Inl err, h')
      | (Inr _, h') \<Rightarrow> (Inr (Ref (length h)), h'))"
| "eval E (ObjectFreeze T e) h =
     (case eval E e h of
        (Inl err, h') \<Rightarrow> (Inl err, h')
      | (Inr v, h') \<Rightarrow> (Inr v, freeze v h'))"
| "eval E (Ident x) h =
     (case map_of E x of
        None \<Rightarrow> (Inl ReferenceError, h)
      | Some v \<Rightarrow> (Inr v, h))"
| "eval E (Member e p) h =
     (case eval E e h of
        (Inl err, h') \<Rightarrow> (Inl err, h')
      | (Inr v, h') \<Rightarrow> (get_member h' v p, h'))"
| "eval_props E a [] h = (Inr (), h)"
| "eval_props E a ((n, e) # fs) h =
     (case eval E e h of
        (Inl err, h') \<Rightarrow> (Inl err, h')
      | (Inr v, h') \<Rightarrow> eval_props E a fs (define_prop a n v h'))"

record state =
  store :: heap
  bindings :: env

text \<open>
  A statement returns the exception it raised, if any, and the state it leaves. In an
  assignment the target object is evaluated first, then the right-hand side, then the
  write takes place.
\<close>

fun exec :: "bool \<Rightarrow> stmt \<Rightarrow> state \<Rightarrow> error option \<times> state" where
  "exec strict (ExportConst x e) st =
     (case eval (bindings st) e (store st) of
        (Inl err, h') \<Rightarrow> (Some err, st\<lparr>store := h'\<rparr>)
      | (Inr v, h') \<Rightarrow> (None, \<lparr>store = h', bindings = (x, v) # bindings st\<rparr>))"
| "exec strict (Assign e p r) st =
     (case eval (bindings st) e (store st) of
        (Inl err, h1) \<Rightarrow> (Some err, st\<lparr>store := h1\<rparr>)
      | (Inr base, h1) \<Rightarrow>
          (case eval (bindings st) r h1 of
             (Inl err, h2) \<Rightarrow> (Some err, st\<lparr>store := h2\<rparr>)
           | (Inr v, h2) \<Rightarrow>
               (case put_member strict h2 base p v of
                  (Inl err, h3) \<Rightarrow> (Some err, st\<lparr>store := h3\<rparr>)
                | (Inr _, h3) \<Rightarrow> (None, st\<lparr>store := h3\<rparr>))))"

text \<open>Loading the module: its one statement, run as module code in a store \<open>h\<close>.\<close>

definition load_config :: "heap \<Rightarrow> error option \<times> state" where
  "load_config h = exec True config_module \<lparr>store = h, bindings = []\<rparr>"

subsection \<open>Reading and writing the fields of \<open>config\<close>\<close>

text \<open>
  A field is named by its path from \<open>config\<close>: \<open>field [''algolia'', ''apiKey'']\<close> is
  the expression \<open>config.algolia.apiKey\<close>. A consumer reads a field by evaluating that
  expression. \<open>write_field ps p r\<close> assigns \<open>r\<close> to the property \<open>p\<close> of the object
  at \<open>ps\<close>: \<open>write_field [''algolia''] ''apiKey'' r\<close> is \<open>config.algolia.apiKey = r\<close>
  and \<open>write_field [] ''github'' r\<close> is \<open>config.github = r\<close>.
\<close>

definition field :: "string list \<Rightarrow> expr" where
  "field ps = foldl Member (Ident ''config'') ps"

definition read_field :: "state \<Rightarrow> string list \<Rightarrow> error + val" where
  "read_field st ps = fst (eval (bindings st) (field ps) (store st))"

definition write_field :: "string list \<Rightarrow> string \<Rightarrow> expr \<Rightarrow> stmt" where
  "write_field ps p r = Assign (field ps) p r"

text \<open>The seven string fields that the type \<open>Config\<close> declares, in source order.\<close>

definition fields :: "string list list" where
  "fields =
     [[''seo'', ''title''], [''seo'', ''description''],
      [''github''], [''discord''],
      [''algolia'', ''apiKey''], [''algolia'', ''appId''], [''algolia'', ''indexName'']]"

text \<open>The properties of the \<open>config\<close> object itself, and the fields one level down.\<close>

definition top_level :: "string list" where
  "top_level = [''seo'', ''github'', ''discord'', ''algolia'']"

definition nested :: "(string \<times> string) list" where
  "nested =
     [(''seo'', ''title''), (''seo'', ''description''),
      (''algolia'', ''apiKey''), (''algolia'', ''appId''), (''algolia'', ''indexName'')]"

text \<open>The field values of \<open>config\<close> in a state, field by field.\<close>

definition snapshot :: "state \<Rightarrow> (error + val) list" where
  "snapshot st = map (read_field st) fields"

subsection \<open>Values of a type\<close>

text \<open>
  A run-time value has a static type when it is a string for \<open>string\<close>, the very
  string for a literal type, and for an object type an object of the store that has
  every property of the type, holding a value of the property's type.
\<close>

fun conforms :: "heap \<Rightarrow> val \<Rightarrow> ty \<Rightarrow> bool"
  and conforms_props :: "heap \<Rightarrow> obj \<Rightarrow> (string \<times> bool \<times> ty) list \<Rightarrow> bool"
where
  "conforms h v TString = (case v of Str _ \<Rightarrow> True | _ \<Rightarrow> False)"
| "conforms h v (TLit b) = (v = Str b)"
| "conforms h v (TObj qs) =
     (case v of
        Ref a \<Rightarrow> (case lookup_obj h a of None \<Rightarrow> False | Some ob \<Rightarrow> conforms_props h ob qs)
      | _ \<Rightarrow> False)"
| "conforms_props h ob [] = True"
| "conforms_props h ob ((n, ro, t) # qs) =
     ((case map_of (props ob) n of None \<Rightarrow> False | Some pr \<Rightarrow> conforms h (pvalue pr) t)
      \<and> conforms_props h ob qs)"

text \<open>A state in which \<open>config\<close> is bound to a value of type \<open>Config\<close>.\<close>

definition config_ok :: "state \<Rightarrow> bool" where
  "config_ok st =
     (case map_of (bindings st) ''config'' of
        None \<Rightarrow> False
      | Some v \<Rightarrow> conforms (store st) v Config)"

subsection \<open>The consumer's search check\<close>

text \<open>
  Modelled from the spec: the consumer of \<open>config.algolia\<close> (the layout of the site
  that sets up the search widget) is not among the sources. The spec has it initialise
  search "if all three algolia fields are non-empty" and omit it otherwise.
\<close>

definition non_empty :: "error + val \<Rightarrow> bool" where
  "non_empty r = (case r of Inr (Str s) \<Rightarrow> s \<noteq> [] | _ \<Rightarrow> False)"

definition search_enabled :: "state \<Rightarrow> bool" where
  "search_enabled st =
     (non_empty (read_field st [''algolia'', ''apiKey''])
      \<and> non_empty (read_field st [''algolia'', ''appId''])
      \<and> non_empty (read_field st [''algolia'', ''indexName'']))"

subsection \<open>Well-formed URLs\<close>

text \<open>
  The generic syntax of RFC 3986 for a URI with an authority,
  \<open>scheme "://" [userinfo "@"] host [":" port] path ["?" query] ["#" fragment]\<close>,
  with a non-empty registered name as host (address literals in brackets are not
  accepted).
\<close>

definition alpha :: "char list" where
  "alpha = ''abcdefghijklmnopqrstuvwxyzABCDEFGHIJKLMNOPQRSTUVWXYZ''"

definition digit :: "char list" where
  "digit = ''0123456789''"

definition hexdig :: "char list" where
  "hexdig = ''0123456789abcdefABCDEF''"

definition unreserved :: "char list" where
  "unreserved = alpha @ digit @ ''-._~''"

definition sub_delims :: "char list" where
  "sub_delims = ''!$&()*+,;='' @ [CHR 0x27]"

text \<open>
  Every character is among the allowed ones, or starts a percent-encoded octet
  \<open>"%" HEXDIG HEXDIG\<close>.
\<close>

fun encoded :: "char list \<Rightarrow> string \<Rightarrow> bool" where
  "encoded ok [] = True"
| "encoded ok (c # cs) =
     (if c = CHR ''%''
      then (case cs of
              x # y # rest \<Rightarrow> x \<in> set hexdig \<and> y \<in> set hexdig \<and> encoded ok rest
            | _ \<Rightarrow> False)
      else c \<in> set ok \<and> encoded ok cs)"

definition valid_scheme :: "string \<Rightarrow> bool" where
  "valid_scheme s =
     (case s of
        [] \<Rightarrow> False
      | c # cs \<Rightarrow> c \<in> set alpha \<and> list_all (\<lambda>d. d \<in> set (alpha @ digit @ ''+-.'')) cs)"

definition valid_authority :: "string \<Rightarrow> bool" where
  "valid_authority a =
     (let userinfo = (if CHR ''@'' \<in> set a then takeWhile (\<lambda>c. c \<noteq> CHR ''@'') a else []);
          hostport = (if CHR ''@'' \<in> set a then tl (dropWhile (\<lambda>c. c \<noteq> CHR ''@'') a) else a);
          host = takeWhile (\<lambda>c. c \<noteq> CHR '':'') hostport;
          port = dropWhile (\<lambda>c. c \<noteq> CHR '':'') hostport
      in encoded (unreserved @ sub_delims @ '':'') userinfo
         \<and> host \<noteq> [] \<and> encoded (unreserved @ sub_delims) host
         \<and> (port = [] \<or> list_all (\<lambda>d. d \<in> set digit) (tl port)))"

definition well_formed_url :: "string \<Rightarrow> bool" where
  "well_formed_url u =
     (let scheme = takeWhile (\<lambda>c. c \<noteq> CHR '':'') u;
          rest = dropWhile (\<lambda>c. c \<noteq> CHR '':'') u;
          hier = drop 3 rest;
          authority = takeWhile (\<lambda>c. c \<notin> set ''/?#'') hier;
          tail = dropWhile (\<lambda>c. c \<notin> set ''/?#'') hier;
          path = takeWhile (\<lambda>c. c \<notin> set ''?#'') tail;
          after_path = dropWhile (\<lambda>c. c \<notin> set ''?#'') tail;
          query = takeWhile (\<lambda>c. c \<noteq> CHR ''#'') after_path;
          fragment = dropWhile (\<lambda>c. c \<noteq> CHR ''#'') after_path
      in valid_scheme scheme
         \<and> take 3 rest = ''://''
         \<and> valid_authority authority
         \<and> encoded (unreserved @ sub_delims @ '':@/'') path
         \<and> encoded (unreserved @ sub_delims @ '':@/?'') (tl query)
         \<and> encoded (unreserved @ sub_delims @ '':@/?'') (tl fragment))"

definition is_url :: "error + val \<Rightarrow> bool" where
  "is_url r = (case r of Inr (Str s) \<Rightarrow> s \<noteq> [] \<and> well_formed_url s | _ \<Rightarrow> False)"

subsection \<open>The type environment of a consumer\<close>

text \<open>What a module that imports \<open>config\<close> knows about it: the type the module gave it.\<close>

definition config_tenv :: tenv where
  "config_tenv = (case check_stmt [] config_module of None \<Rightarrow> [] | Some G \<Rightarrow> G)"

subsection \<open>What evaluation may do to the objects that exist\<close>

text \<open>
  Between two stores, every object of the first outside \<open>X\<close> is still there, as it was
  or frozen. No expression of the fragment does more than that to an object it did not
  create itself.
\<close>

definition evolves :: "addr set \<Rightarrow> heap \<Rightarrow> heap \<Rightarrow> bool" where
  "evolves X h h' =
     (length h \<le> length h'
      \<and> (\<forall>b < length h. b \<notin> X \<longrightarrow> h' ! b = h ! b \<or> h' ! b = freeze_obj (h ! b)))"

section \<open>Properties of evaluation\<close>

lemma freeze_obj_idem: "freeze_obj (freeze_obj ob) = freeze_obj ob"
  by (simp add: freeze_obj_def case_prod_unfold comp_def)

lemma evolves_refl: "evolves X h h"
  by (simp add: evolves_def)

lemma evolves_trans: "evolves X h1 h2 \<Longrightarrow> evolves X h2 h3 \<Longrightarrow> evolves X h1 h3"
  unfolding evolves_def
  by (metis (no_types, lifting) freeze_obj_idem le_trans less_le_trans)

lemma evolves_mono: "evolves X h h' \<Longrightarrow> X \<subseteq> Y \<Longrightarrow> evolves Y h h'"
  unfolding evolves_def by blast

lemma evolves_freeze: "evolves X h (freeze v h)"
  by (cases v) (auto simp: evolves_def lookup_obj_def nth_list_update split: option.splits)

lemma evolves_define_prop: "evolves {a} h (define_prop a n v h)"
  by (auto simp: evolves_def define_prop_def lookup_obj_def nth_list_update split: option.splits)

lemma evolves_alloc: "evolves {length h} (h @ [ob]) h' \<Longrightarrow> evolves {} h h'"
  unfolding evolves_def
  by (auto simp: nth_append)

text \<open>
  By induction over the evaluation: an object literal only writes to the object it has
  just allocated, and \<open>Object.freeze\<close> only freezes.
\<close>

lemma eval_evolves:
  "eval E e h = (r, h') \<Longrightarrow> evolves {} h h'"
  "eval_props E a fs h = (r', h') \<Longrightarrow> evolves {a} h h'"
proof (induction E e h and E a fs h arbitrary: r h' and r' h' rule: eval_eval_props.induct)
  case (1 E s h)
  then show ?case by (simp add: evolves_refl)
next
  case (2 E fs h)
  then show ?case
    by (auto split: prod.splits sum.splits intro: evolves_alloc)
next
  case (3 E T e h)
  then show ?case
    by (auto split: prod.splits sum.splits intro: evolves_trans evolves_freeze)
next
  case (4 E x h)
  then show ?case by (auto split: option.splits simp: evolves_refl)
next
  case (5 E e p h)
  then show ?case by (auto split: prod.splits sum.splits)
next
  case (6 E a h)
  then show ?case by (simp add: evolves_refl)
next
  case (7 E a n e fs h)
  show ?case
  proof (cases "eval E e h")
    case (Pair res h1)
    then have e1: "evolves {a} h h1"
      using "7.IH"(1) evolves_mono by blast
    show ?thesis
    proof (cases res)
      case (Inl err)
      with Pair "7.prems" e1 show ?thesis by simp
    next
      case (Inr v)
      with Pair "7.prems" have "eval_props E a fs (define_prop a n v h1) = (r', h')"
        by simp
      then have "evolves {a} (define_prop a n v h1) h'"
        using "7.IH"(2) [OF Pair [symmetric] Inr] by simp
      with e1 evolves_define_prop show ?thesis
        by (blast intro: evolves_trans)
    qed
  qed
qed

section \<open>The loaded module\<close>

text \<open>
  In any store and with anything else bound, the initialiser appends three objects: the
  \<open>config\<close> object, frozen, and after it the objects of its \<open>seo\<close> and \<open>algolia\<close>
  properties, which are left writable and extensible.
\<close>

lemma eval_config:
  "eval E config h =
     (Inr (Ref (length h)),
      h @ [\<lparr>props =
             [(''seo'', \<lparr>pvalue = Ref (Suc (length h)), writable = False, configurable = False\<rparr>),
              (''github'', \<lparr>pvalue = Str ''https://github.com/dj-nitehawk/FastEndpoints'',
                            writable = False, configurable = False\<rparr>),
              (''discord'', \<lparr>pvalue = Str ''https://discord.com/invite/yQZ4uvfF2E'',
                             writable = False, configurable = False\<rparr>),
              (''algolia'', \<lparr>pvalue = Ref (Suc (Suc (length h))), writable = False, configurable = False\<rparr>)],
            extensible = False\<rparr>,
           \<lparr>props =
             [(''title'', \<lparr>pvalue = Str '''', writable = True, configurable = True\<rparr>),
              (''description'', \<lparr>pvalue = Str '''', writable = True, configurable = True\<rparr>)],
            extensible = True\<rparr>,
           \<lparr>props =
             [(''apiKey'', \<lparr>pvalue = Str '''', writable = True, configurable = True\<rparr>),
              (''appId'', \<lparr>pvalue = Str '''', writable = True, configurable = True\<rparr>),
              (''indexName'', \<lparr>pvalue = Str '''', writable = True, configurable = True\<rparr>)],
            extensible = True\<rparr>])"
  by (simp add: config_def empty_obj_def define_prop_def lookup_obj_def data_prop_def
      freeze_obj_def nth_append list_update_append)

lemma load_config_eq:
  "load_config h =
     (None, \<lparr>store = snd (eval [] config h), bindings = [(''config'', Ref (length h))]\<rparr>)"
  by (simp add: load_config_def config_module_def eval_config)

lemma config_tenv_eq: "config_tenv = [(''config'', Readonly Config)]"
  by (simp add: config_tenv_def config_module_def config_def Config_def)

lemmas loaded = load_config_eq eval_config read_field_def field_def lookup_obj_def nth_append

lemma snapshot_loaded:
  "snapshot (snd (load_config h)) =
       [Inr (Str ''''), Inr (Str ''''),
        Inr (Str ''https://github.com/dj-nitehawk/FastEndpoints''),
        Inr (Str ''https://discord.com/invite/yQZ4uvfF2E''),
        Inr (Str ''''), Inr (Str ''''), Inr (Str '''')]"
  by (simp add: loaded snapshot_def fields_def)

lemma config_ok_loaded: "config_ok (snd (load_config h))"
  by (simp add: loaded config_ok_def Config_def)

lemma type_of_config: "type_of [] config = Some (Readonly Config)"
  by (simp add: Config_def config_def)

text \<open>The two links of the source, checked against the URL syntax.\<close>

lemma url1: "well_formed_url ''https://github.com/dj-nitehawk/FastEndpoints''"
  by code_simp

lemma url2: "well_formed_url ''https://discord.com/invite/yQZ4uvfF2E''"
  by code_simp

text \<open>
  Reading a declared property of a value of an object type gives a value of the
  property's type; so the nested fields of any \<open>config\<close> of type \<open>Config\<close> read as
  their types say.
\<close>

lemma conforms_props_lookup:
  "conforms_props h ob qs \<Longrightarrow> map_of qs n = Some (ro, t) \<Longrightarrow>
     \<exists>pr. map_of (props ob) n = Some pr \<and> conforms h (pvalue pr) t"
  by (induction qs) (auto split: option.splits if_splits)

lemma get_member_conforms:
  assumes "conforms h v (TObj qs)" and "map_of qs n = Some (ro, t)"
  shows "\<exists>w. get_member h v n = Inr w \<and> conforms h w t"
proof (cases v)
  case (Ref a)
  with assms(1) obtain ob where ob: "lookup_obj h a = Some ob" "conforms_props h ob qs"
    by (auto split: option.splits)
  from conforms_props_lookup [OF ob(2) assms(2)] ob(1) Ref show ?thesis
    by auto
qed (use assms in simp_all)

lemma conforms_string: "conforms h v TString \<Longrightarrow> \<exists>s. v = Str s"
  by (cases v) simp_all

lemma read_nested:
  assumes "config_ok st"
    and "map_of [(''seo'', False, TObj
         [(''title'', False, TLit ''''),
          (''description'', False, TLit '''')]),
      (''github'', False, TString),
      (''discord'', False, TString),
      (''algolia'', False, TObj
         [(''apiKey'', False, TString),
          (''appId'', False, TString),
          (''indexName'', False, TString)])] p = Some (ro, TObj qs)"
    and "map_of qs q = Some (ro', t)"
  shows "\<exists>w. read_field st [p, q] = Inr w \<and> conforms (store st) w t"
proof -
  from assms(1) obtain v where v: "map_of (bindings st) ''config'' = Some v"
    "conforms (store st) v Config"
    by (auto simp: config_ok_def split: option.splits)
  from get_member_conforms [OF v(2) [unfolded Config_def] assms(2)]
  obtain w where w: "get_member (store st) v p = Inr w" "conforms (store st) w (TObj qs)"
    by blast
  from get_member_conforms [OF w(2) assms(3)]
  obtain x where x: "get_member (store st) w q = Inr x" "conforms (store st) x t"
    by blast
  from v(1) w(1) x show ?thesis
    by (simp add: read_field_def field_def)
qed

lemma read_algolia:
  assumes "config_ok st" and "q \<in> {''apiKey'', ''appId'', ''indexName''}"
  shows "\<exists>s. read_field st [''algolia'', q] = Inr (Str s)"
proof -
  from assms(2) have "map_of [(''apiKey'', False, TString),
          (''appId'', False, TString),
          (''indexName'', False, TString)] q = Some (False, TString)"
    by auto
  from read_nested [OF assms(1) _ this, of "''algolia''" False]
  obtain w where w: "read_field st [''algolia'', q] = Inr w" "conforms (store st) w TString"
    by auto
  from conforms_string [OF w(2)] w(1) show ?thesis
    by auto
qed


text \<open>The three objects of the loaded module, one by one.\<close>

lemma loaded_length: "length (store (snd (load_config h))) = length h + 3"
  by (simp add: load_config_eq eval_config)

lemma loaded_bindings: "bindings (snd (load_config h)) = [(''config'', Ref (length h))]"
  by (simp add: load_config_eq)

lemma loaded_root:
  "store (snd (load_config h)) ! length h =
     \<lparr>props =
        [(''seo'', \<lparr>pvalue = Ref (Suc (length h)), writable = False, configurable = False\<rparr>),
         (''github'', \<lparr>pvalue = Str ''https://github.com/dj-nitehawk/FastEndpoints'',
                       writable = False, configurable = False\<rparr>),
         (''discord'', \<lparr>pvalue = Str ''https://discord.com/invite/yQZ4uvfF2E'',
                        writable = False, configurable = False\<rparr>),
         (''algolia'', \<lparr>pvalue = Ref (Suc (Suc (length h))), writable = False, configurable = False\<rparr>)],
      extensible = False\<rparr>"
  by (simp add: load_config_eq eval_config)

lemma loaded_seo:
  "store (snd (load_config h)) ! Suc (length h) =
     \<lparr>props =
        [(''title'', \<lparr>pvalue = Str '''', writable = True, configurable = True\<rparr>),
         (''description'', \<lparr>pvalue = Str '''', writable = True, configurable = True\<rparr>)],
      extensible = True\<rparr>"
  by (simp add: load_config_eq eval_config nth_append)

lemma loaded_algolia:
  "store (snd (load_config h)) ! Suc (Suc (length h)) =
     \<lparr>props =
        [(''apiKey'', \<lparr>pvalue = Str '''', writable = True, configurable = True\<rparr>),
         (''appId'', \<lparr>pvalue = Str '''', writable = True, configurable = True\<rparr>),
         (''indexName'', \<lparr>pvalue = Str '''', writable = True, configurable = True\<rparr>)],
      extensible = True\<rparr>"
  by (simp add: load_config_eq eval_config nth_append)

text \<open>
  Whatever is evaluated after loading, the \<open>config\<close> object stays as it is (it is
  frozen already), the two nested objects are as they were or frozen, and so every field
  reads as before.
\<close>

lemma loaded_evolves:
  assumes "evolves {} (store (snd (load_config h))) h2"
  shows "length h + 3 \<le> length h2"
    and "h2 ! length h = store (snd (load_config h)) ! length h"
    and "h2 ! Suc (length h) = store (snd (load_config h)) ! Suc (length h)
         \<or> h2 ! Suc (length h) = freeze_obj (store (snd (load_config h)) ! Suc (length h))"
    and "h2 ! Suc (Suc (length h)) = store (snd (load_config h)) ! Suc (Suc (length h))
         \<or> h2 ! Suc (Suc (length h)) = freeze_obj (store (snd (load_config h)) ! Suc (Suc (length h)))"
proof -
  let ?h1 = "store (snd (load_config h))"
  note len = loaded_length [of h]
  from assms len show "length h + 3 \<le> length h2"
    by (simp add: evolves_def)
  from assms len have "h2 ! length h = ?h1 ! length h \<or> h2 ! length h = freeze_obj (?h1 ! length h)"
    by (simp add: evolves_def)
  moreover have "freeze_obj (?h1 ! length h) = ?h1 ! length h"
    by (simp add: loaded_root freeze_obj_def)
  ultimately show "h2 ! length h = ?h1 ! length h"
    by auto
  from assms len show "h2 ! Suc (length h) = ?h1 ! Suc (length h)
         \<or> h2 ! Suc (length h) = freeze_obj (?h1 ! Suc (length h))"
    by (simp add: evolves_def)
  from assms len show "h2 ! Suc (Suc (length h)) = ?h1 ! Suc (Suc (length h))
         \<or> h2 ! Suc (Suc (length h)) = freeze_obj (?h1 ! Suc (Suc (length h)))"
    by (simp add: evolves_def)
qed

lemma snapshot_stable:
  assumes "evolves {} (store (snd (load_config h))) h2"
  shows "snapshot ((snd (load_config h))\<lparr>store := h2\<rparr>) = snapshot (snd (load_config h))"
proof -
  note ev = loaded_evolves [OF assms]
  have lt: "length h < length h2" "Suc (length h) < length h2" "Suc (Suc (length h)) < length h2"
    using ev(1) by simp_all
  have r: "h2 ! length h = store (snd (load_config h)) ! length h"
    by (rule ev(2))
  show ?thesis
    unfolding snapshot_def fields_def
    using ev(3,4) lt
    by (auto simp: read_field_def field_def lookup_obj_def r loaded_length loaded_bindings
        loaded_root loaded_seo loaded_algolia freeze_obj_def)
qed

lemmas loaded_store = loaded_length loaded_bindings loaded_root loaded_seo loaded_algolia

lemma loaded_nonempty: "store (snd (load_config h)) \<noteq> []"
  using loaded_length [of h] by auto

lemmas loaded_empty = loaded_nonempty [of "[]"] loaded_store [of "[]", simplified]

lemma loaded_frozen:
  "isFrozen (store (snd (load_config h))) (Ref (length h))"
  "\<not> isFrozen (store (snd (load_config h))) (Ref (Suc (length h)))"
  "\<not> isFrozen (store (snd (load_config h))) (Ref (Suc (Suc (length h))))"
  by (simp_all add: lookup_obj_def loaded_store)

lemma loaded_refs:
  "read_field (snd (load_config h)) [''seo''] = Inr (Ref (Suc (length h)))"
  "read_field (snd (load_config h)) [''algolia''] = Inr (Ref (Suc (Suc (length h))))"
  by (simp_all add: read_field_def field_def lookup_obj_def loaded_store)

lemma loaded_algolia_empty:
  "read_field (snd (load_config h)) [''algolia'', ''apiKey''] = Inr (Str '''')"
  "read_field (snd (load_config h)) [''algolia'', ''appId''] = Inr (Str '''')"
  "read_field (snd (load_config h)) [''algolia'', ''indexName''] = Inr (Str '''')"
  by (simp_all add: read_field_def field_def lookup_obj_def loaded_store)

section \<open>Writes to the loaded configuration\<close>

text \<open>The type checker refuses every assignment to a property of \<open>config\<close> itself.\<close>

lemma top_level_readonly:
  "f \<in> set top_level \<Longrightarrow> check_stmt config_tenv (write_field [] f r) = None"
  by (auto simp: top_level_def config_tenv_eq write_field_def field_def Config_def
      split: option.splits)

text \<open>
  At run time such an assignment evaluates its right-hand side and then fails at the
  frozen object: the store it leaves is the one the right-hand side left.
\<close>

lemma top_level_write:
  assumes f: "f \<in> set top_level"
    and r: "eval (bindings (snd (load_config h))) r (store (snd (load_config h))) = (res, h2)"
  shows "exec strict (write_field [] f r) (snd (load_config h)) =
           (case res of Inl e \<Rightarrow> Some e | Inr v \<Rightarrow> if strict then Some TypeError else None,
            (snd (load_config h))\<lparr>store := h2\<rparr>)"
proof -
  note ev = loaded_evolves [OF eval_evolves(1) [OF r]]
  have lt: "length h < length h2"
    using ev(1) by simp
  note r' = r [unfolded loaded_bindings]
  have p: "put_member strict h2 (Ref (length h)) f v = reject strict v h2" for v
    using f lt by (auto simp: top_level_def lookup_obj_def ev(2) loaded_root)
  show ?thesis
    by (cases res)
      (simp_all add: write_field_def field_def loaded_bindings r' p reject_def
        del: put_member.simps)
qed

lemma nested_cases:
  assumes "(ob, p) \<in> set nested"
  obtains "ob = ''seo''" "p = ''title''"
    | "ob = ''seo''" "p = ''description''"
    | "ob = ''algolia''" "p = ''apiKey''"
    | "ob = ''algolia''" "p = ''appId''"
    | "ob = ''algolia''" "p = ''indexName''"
  using assms unfolding nested_def by fastforce

text \<open>An assignment of a string to a nested field goes through, in either mode.\<close>

lemma nested_write:
  assumes "(ob, p) \<in> set nested"
  shows "fst (exec strict (write_field [ob] p (StrLit s)) (snd (load_config h))) = None"
    and "read_field (snd (exec strict (write_field [ob] p (StrLit s)) (snd (load_config h))))
            [ob, p] = Inr (Str s)"
    and "store (snd (exec strict (write_field [ob] p (StrLit s)) (snd (load_config h))))
            ! length h = store (snd (load_config h)) ! length h"
proof -
  show "fst (exec strict (write_field [ob] p (StrLit s)) (snd (load_config h))) = None"
    using assms
    by (cases rule: nested_cases)
      (simp_all add: write_field_def field_def lookup_obj_def loaded_store)
  show "read_field (snd (exec strict (write_field [ob] p (StrLit s)) (snd (load_config h))))
            [ob, p] = Inr (Str s)"
    using assms
    by (cases rule: nested_cases)
      (simp_all add: write_field_def read_field_def field_def lookup_obj_def loaded_store)
  show "store (snd (exec strict (write_field [ob] p (StrLit s)) (snd (load_config h))))
            ! length h = store (snd (load_config h)) ! length h"
    using assms
    by (cases rule: nested_cases)
      (simp_all add: write_field_def field_def lookup_obj_def loaded_store)
qed

lemma nested_write_typed:
  "check_stmt config_tenv (write_field [''algolia''] p (StrLit s)) =
     (if p \<in> {''apiKey'', ''appId'', ''indexName''} then Some config_tenv else None)"
  by (simp add: config_tenv_eq Config_def write_field_def field_def)

section \<open>The claims\<close>

subsection \<open>C1: writes and the field values\<close>

text \<open>
  C1, counterexample. As stated for every field, the nested ones included, the
  property fails: \<open>config.algolia.apiKey = 'k'\<close> type-checks against the type of
  \<open>config\<close>, raises nothing when run as module code after the module has loaded, and
  the field reads \<open>'k'\<close> afterwards where it read \<open>''\<close> before.
\<close>

theorem nested_write_changes_field:
  "check_stmt config_tenv (write_field [''algolia''] ''apiKey'' (StrLit ''k'')) = Some config_tenv
   \<and> fst (exec True (write_field [''algolia''] ''apiKey'' (StrLit ''k'')) (snd (load_config []))) = None
   \<and> read_field (snd (load_config [])) [''algolia'', ''apiKey''] = Inr (Str '''')
   \<and> read_field (snd (exec True (write_field [''algolia''] ''apiKey'' (StrLit ''k''))
         (snd (load_config [])))) [''algolia'', ''apiKey''] = Inr (Str ''k'')"
  using nested_write (1,2) [of "''algolia''" "''apiKey''" True "''k''" "[]"]
    loaded_algolia_empty(1) [of "[]"]
  by (simp add: nested_write_typed nested_def)

text \<open>
  C1, as the code has it. For each property \<open>f\<close> of \<open>config\<close> itself (\<open>seo\<close>,
  \<open>github\<close>, \<open>discord\<close>, \<open>algolia\<close>), any right-hand side \<open>r\<close> and any store the
  module was loaded in: the assignment \<open>config.f = r\<close> does not type-check; run as
  strict mode code it ends in an exception; and in either mode each of the seven
  fields reads afterwards what it read before.
\<close>

theorem top_level_write_keeps_fields:
  "f \<in> set top_level \<Longrightarrow>
     check_stmt config_tenv (write_field [] f r) = None
     \<and> (strict \<longrightarrow> fst (exec strict (write_field [] f r) (snd (load_config h))) \<noteq> None)
     \<and> snapshot (snd (exec strict (write_field [] f r) (snd (load_config h))))
         = snapshot (snd (load_config h))"
proof -
  assume f: "f \<in> set top_level"
  obtain res h2 where
    r: "eval (bindings (snd (load_config h))) r (store (snd (load_config h))) = (res, h2)"
    by (cases "eval (bindings (snd (load_config h))) r (store (snd (load_config h)))")
  note w = top_level_write [OF f r]
  have "snapshot ((snd (load_config h))\<lparr>store := h2\<rparr>) = snapshot (snd (load_config h))"
    by (rule snapshot_stable [OF eval_evolves(1) [OF r]])
  with w top_level_readonly [OF f] show ?thesis
    by (cases res) simp_all
qed

text \<open>
  C1, witness: \<open>config.github = 'x'\<close>, run as module code in the empty store.
\<close>

theorem top_level_write_keeps_fields_witness:
  "''github'' \<in> set top_level
   \<and> check_stmt config_tenv (write_field [] ''github'' (StrLit ''x'')) = None
   \<and> fst (exec True (write_field [] ''github'' (StrLit ''x'')) (snd (load_config []))) \<noteq> None
   \<and> snapshot (snd (exec True (write_field [] ''github'' (StrLit ''x'')) (snd (load_config []))))
       = snapshot (snd (load_config []))"
  using top_level_write_keeps_fields [of "''github''" "StrLit ''x''" True "[]"]
  by (simp add: top_level_def)

subsection \<open>C2: rejection of writes\<close>




subsection \<open>C3: the search check\<close>

text \<open>
  C3. In every state in which \<open>config\<close> is bound to a value of type \<open>Config\<close>, the
  search check is false exactly when at least one of \<open>algolia.apiKey\<close>,
  \<open>algolia.appId\<close>, \<open>algolia.indexName\<close> is the empty string. The state with all three
  empty is a legal one: the loaded module is such a state.
\<close>

theorem search_disabled_iff_some_empty:
  "(config_ok st \<longrightarrow>
      (search_enabled st = False) =
      (read_field st [''algolia'', ''apiKey''] = Inr (Str '''')
       \<or> read_field st [''algolia'', ''appId''] = Inr (Str '''')
       \<or> read_field st [''algolia'', ''indexName''] = Inr (Str '''')))
   \<and> config_ok (snd (load_config h))
   \<and> read_field (snd (load_config h)) [''algolia'', ''apiKey''] = Inr (Str '''')
   \<and> read_field (snd (load_config h)) [''algolia'', ''appId''] = Inr (Str '''')
   \<and> read_field (snd (load_config h)) [''algolia'', ''indexName''] = Inr (Str '''')"
proof -
  have "(search_enabled st = False) =
      (read_field st [''algolia'', ''apiKey''] = Inr (Str '''')
       \<or> read_field st [''algolia'', ''appId''] = Inr (Str '''')
       \<or> read_field st [''algolia'', ''indexName''] = Inr (Str ''''))" if ok: "config_ok st"
  proof -
    from read_algolia [OF ok] obtain s1 s2 s3 where
      "read_field st [''algolia'', ''apiKey''] = Inr (Str s1)"
      "read_field st [''algolia'', ''appId''] = Inr (Str s2)"
      "read_field st [''algolia'', ''indexName''] = Inr (Str s3)"
      by (metis insertCI)
    then show ?thesis
      by (auto simp: search_enabled_def non_empty_def)
  qed
  then show ?thesis
    using config_ok_loaded loaded_algolia_empty by blast
qed

text \<open>
  C3, witness: the state left by \<open>config.algolia.appId = 'A1'\<close> after loading. It is
  still a state of type \<open>Config\<close>, two of the three fields are empty, and the check is
  false.
\<close>

theorem search_disabled_iff_some_empty_witness:
  "config_ok (snd (exec True (write_field [''algolia''] ''appId'' (StrLit ''A1''))
      (snd (load_config []))))
   \<and> read_field (snd (exec True (write_field [''algolia''] ''appId'' (StrLit ''A1''))
        (snd (load_config [])))) [''algolia'', ''appId''] = Inr (Str ''A1'')
   \<and> read_field (snd (exec True (write_field [''algolia''] ''appId'' (StrLit ''A1''))
        (snd (load_config [])))) [''algolia'', ''apiKey''] = Inr (Str '''')
   \<and> search_enabled (snd (exec True (write_field [''algolia''] ''appId'' (StrLit ''A1''))
        (snd (load_config [])))) = False"
proof -
  let ?st = "snd (exec True (write_field [''algolia''] ''appId'' (StrLit ''A1''))
      (snd (load_config [])))"
  have ok: "config_ok ?st"
    by (simp add: config_ok_def Config_def write_field_def field_def lookup_obj_def loaded_empty)
  have r: "read_field ?st [''algolia'', ''appId''] = Inr (Str ''A1'')"
    "read_field ?st [''algolia'', ''apiKey''] = Inr (Str '''')"
    by (simp_all add: read_field_def write_field_def field_def lookup_obj_def loaded_empty)
  from search_disabled_iff_some_empty [of ?st "[]"] ok r show ?thesis
    by simp
qed

subsection \<open>C4: every declared field is present\<close>

text \<open>
  C4. Loading the module, in any store, raises nothing and leaves a \<open>config\<close> whose
  seven declared fields each read as a string (none is missing, \<open>undefined\<close> or
  \<open>null\<close>); the value has the declared type \<open>Config\<close>, and the initialiser
  type-checks at \<open>Readonly<Config>\<close>.
\<close>

theorem config_fields_present:
  "fst (load_config h) = None
   \<and> snapshot (snd (load_config h)) =
       [Inr (Str ''''), Inr (Str ''''),
        Inr (Str ''https://github.com/dj-nitehawk/FastEndpoints''),
        Inr (Str ''https://discord.com/invite/yQZ4uvfF2E''),
        Inr (Str ''''), Inr (Str ''''), Inr (Str '''')]
   \<and> config_ok (snd (load_config h))
   \<and> type_of [] config = Some (Readonly Config)"
  using snapshot_loaded config_ok_loaded type_of_config
  by (simp add: load_config_eq)

subsection \<open>C5: the two links\<close>

text \<open>
  C5. In the loaded configuration \<open>github\<close> and \<open>discord\<close> are each a non-empty string
  that is a well-formed URL.
\<close>

theorem github_discord_well_formed:
  "is_url (read_field (snd (load_config h)) [''github''])
   \<and> is_url (read_field (snd (load_config h)) [''discord''])"
  by (simp add: read_field_def field_def lookup_obj_def loaded_store is_url_def url1 url2)

subsection \<open>C6: construction is deterministic and has no side effect\<close>

text \<open>
  C6. The field values of the constructed \<open>config\<close> do not depend on the store the
  module is loaded in. Loading leaves every object that existed before as it was and
  binds nothing but \<open>config\<close>. Loading a second time, in the store the first left,
  gives a second object, distinct from the first and field-wise equal to it, and leaves
  the first untouched.
\<close>

theorem construction_deterministic_pure:
  "snapshot (snd (load_config h)) = snapshot (snd (load_config h'))
   \<and> take (length h) (store (snd (load_config h))) = h
   \<and> bindings (snd (load_config h)) = [(''config'', Ref (length h))]
   \<and> (let st1 = snd (load_config h); st2 = snd (load_config (store st1))
      in bindings st2 \<noteq> bindings st1
         \<and> snapshot (st2\<lparr>bindings := bindings st1\<rparr>) = snapshot st2
         \<and> take (length (store st1)) (store st2) = store st1)"
  by (simp add: loaded snapshot_def fields_def Let_def)

subsection \<open>C7: construction never fails\<close>

text \<open>
  C7. In every store, and whatever else is bound, evaluating the initialiser returns
  a reference to a new object and loading the module raises no exception.
\<close>

theorem construction_never_fails:
  "fst (load_config h) = None \<and> fst (eval E config h) = Inr (Ref (length h))"
  by (simp add: load_config_eq eval_config)

subsection \<open>C8: the freeze is shallow\<close>

text \<open>
  C8. After loading, the \<open>config\<close> object is frozen and the two objects its \<open>seo\<close> and
  \<open>algolia\<close> properties refer to are not. An assignment of any string to any of the
  five nested fields completes without an exception, in strict and in sloppy mode code;
  the field then reads the new string, and the \<open>config\<close> object itself, with its four
  property bindings, is as it was.
\<close>

theorem freeze_is_shallow:
  "isFrozen (store (snd (load_config h))) (Ref (length h))
   \<and> read_field (snd (load_config h)) [''seo''] = Inr (Ref (Suc (length h)))
   \<and> \<not> isFrozen (store (snd (load_config h))) (Ref (Suc (length h)))
   \<and> read_field (snd (load_config h)) [''algolia''] = Inr (Ref (Suc (Suc (length h))))
   \<and> \<not> isFrozen (store (snd (load_config h))) (Ref (Suc (Suc (length h))))
   \<and> (\<forall>(ob, p) \<in> set nested.
        fst (exec strict (write_field [ob] p (StrLit s)) (snd (load_config h))) = None
        \<and> read_field (snd (exec strict (write_field [ob] p (StrLit s)) (snd (load_config h))))
            [ob, p] = Inr (Str s)
        \<and> store (snd (exec strict (write_field [ob] p (StrLit s)) (snd (load_config h))))
            ! length h = store (snd (load_config h)) ! length h)"
  using loaded_frozen [of h] loaded_refs [of h] nested_write [of _ _ strict s h]
  by blast

text \<open>
  C8, witness: \<open>config.seo.title = 'Docs'\<close>, run as module code in the empty store.
\<close>

theorem freeze_is_shallow_witness:
  "(''seo'', ''title'') \<in> set nested
   \<and> fst (exec True (write_field [''seo''] ''title'' (StrLit ''Docs'')) (snd (load_config []))) = None
   \<and> read_field (snd (exec True (write_field [''seo''] ''title'' (StrLit ''Docs''))
        (snd (load_config [])))) [''seo'', ''title''] = Inr (Str ''Docs'')"
proof -
  have m: "(''seo'', ''title'') \<in> set nested"
    by (simp add: nested_def)
  note t = freeze_is_shallow [of "[]" True "''Docs''"]
  note q = t [THEN conjunct2, THEN conjunct2, THEN conjunct2, THEN conjunct2, THEN conjunct2]
  from bspec [OF q m] m show ?thesis
    by simp
qed

subsection \<open>C9: the literal type of the seo fields\<close>



subsection \<open>C10: search is disabled in the shipped configuration\<close>

text \<open>
  C10. In the loaded configuration the three algolia fields are the empty string, and
  the search check over it is false.
\<close>

theorem shipped_search_disabled:
  "read_field (snd (load_config h)) [''algolia'', ''apiKey''] = Inr (Str '''')
   \<and> read_field (snd (load_config h)) [''algolia'', ''appId''] = Inr (Str '''')
   \<and> read_field (snd (load_config h)) [''algolia'', ''indexName''] = Inr (Str '''')
   \<and> search_enabled (snd (load_config h)) = False"
  by (simp add: loaded_algolia_empty search_enabled_def non_empty_def)

end
